theory Spec2Isabelle
  imports Main
begin

section \<open>JavaScript values\<close>

text \<open>
  The rule \<^verbatim>\<open>lib/rules/lint-attribute-indentation.js\<close> is dynamically typed. The values it
  inspects with \<^verbatim>\<open>typeof\<close>, \<^verbatim>\<open>in\<close> and truthiness tests are modelled by \<open>jsval\<close>; numbers
  are the integers (lines, columns and lengths are), an object is the association list of its
  properties. Arrays, functions and symbols are not represented.
\<close>

datatype jsval =
    JUndefined
  | JNull
  | JBool bool
  | JNum int
  | JStr string
  | JObj "(string \<times> jsval) list"

datatype error =
    TypeError
  | Error string

fun typeof :: "jsval \<Rightarrow> string" where
  "typeof JUndefined = ''undefined''"
| "typeof JNull = ''object''"
| "typeof (JBool b) = ''boolean''"
| "typeof (JNum n) = ''number''"
| "typeof (JStr s) = ''string''"
| "typeof (JObj m) = ''object''"

fun truthy :: "jsval \<Rightarrow> bool" where
  "truthy JUndefined = False"
| "truthy JNull = False"
| "truthy (JBool b) = b"
| "truthy (JNum n) = (n \<noteq> 0)"
| "truthy (JStr s) = (s \<noteq> [])"
| "truthy (JObj m) = True"

text \<open>\<^verbatim>\<open>key in v\<close>: a TypeError unless \<open>v\<close> is an object.\<close>

fun js_in :: "string \<Rightarrow> jsval \<Rightarrow> error + bool" where
  "js_in k (JObj m) = Inr (map_of m k \<noteq> None)"
| "js_in k v = Inl TypeError"

text \<open>\<^verbatim>\<open>v[key]\<close>: a TypeError on \<^verbatim>\<open>null\<close> and \<^verbatim>\<open>undefined\<close>, \<^verbatim>\<open>undefined\<close> for a missing property.\<close>

fun js_get :: "jsval \<Rightarrow> string \<Rightarrow> error + jsval" where
  "js_get (JObj m) k = Inr (case map_of m k of None \<Rightarrow> JUndefined | Some v \<Rightarrow> v)"
| "js_get JUndefined k = Inl TypeError"
| "js_get JNull k = Inl TypeError"
| "js_get v k = Inr JUndefined"

text \<open>
  White space as \<^verbatim>\<open>\s\<close> and \<^verbatim>\<open>String.prototype.trim\<close> see it, on the ASCII range: space, tab,
  line feed, vertical tab, form feed, carriage return.
\<close>

definition isWhiteSpace :: "char \<Rightarrow> bool" where
  "isWhiteSpace c = (c \<in> set [CHR '' '', CHR 0x09, CHR 0x0A, CHR 0x0B, CHR 0x0C, CHR 0x0D])"

definition js_trim :: "string \<Rightarrow> string" where
  "js_trim s = rev (dropWhile isWhiteSpace (rev (dropWhile isWhiteSpace s)))"

section \<open>Configuration\<close>

text \<open>
  The options record. \<open>parseConfig\<close> copies the mapping's values unchecked, so its result
  holds \<open>jsval\<close>s; the validators compute with the two numbers, so they take an
  \<open>int config\<close>. \<open>processElements\<close> is \<open>None\<close> when the property is absent.
\<close>

record 'n config =
  maxLength :: 'n
  indentation :: 'n
  processElements :: "jsval option"

datatype parsed =
    Disabled
  | Options "jsval config"

definition usage :: "string list" where
  "usage =
    [''  * boolean - `true` - Enables the rule to be enforced when the opening invocation has more than 80 characters or when it spans multiple lines.'',
     ''  * { open-invocation-max-len: n characters, indentation: m  } - n : The max length of the opening invocation can be configured'',
     ''  *                                                            - m : The desired indentation of attribute'',
     ''  * { process-elements: `boolean` }                         - `true` : Also parse HTML/SVG attributes'']"

text \<open>
  \<^verbatim>\<open>createErrorMessage\<close> lives in \<^verbatim>\<open>lib/helpers/create-error-message.js\<close>; it is a parameter
  here, as is the rule's name.
\<close>

type_synonym createErrorMessage = "string \<Rightarrow> string list \<Rightarrow> jsval \<Rightarrow> string"

definition parseConfig :: "createErrorMessage \<Rightarrow> string \<Rightarrow> jsval \<Rightarrow> error + parsed" where
  "parseConfig createErrorMessage ruleName config =
    (let configType = typeof config in
     if configType = ''boolean'' then
       (if truthy config
        then Inr (Options \<lparr>maxLength = JNum 80, indentation = JNum 2,
                           processElements = Some (JBool True)\<rparr>)
        else Inr Disabled)
     else if configType = ''object'' then
       (let result = \<lparr>maxLength = JNum 80, indentation = JNum 2, processElements = None\<rparr> in
        case js_in ''open-invocation-max-len'' config of
          Inl e \<Rightarrow> Inl e
        | Inr b1 \<Rightarrow>
          (case (if b1 then map_sum id (\<lambda>v. result\<lparr>maxLength := v\<rparr>)
                              (js_get config ''open-invocation-max-len'')
                 else Inr result) of
             Inl e \<Rightarrow> Inl e
           | Inr result \<Rightarrow>
             (case js_in ''indentation'' config of
                Inl e \<Rightarrow> Inl e
              | Inr b2 \<Rightarrow>
                (case (if b2 then map_sum id (\<lambda>v. result\<lparr>indentation := v\<rparr>)
                                    (js_get config ''indentation'')
                       else Inr result) of
                   Inl e \<Rightarrow> Inl e
                 | Inr result \<Rightarrow>
                   (case js_in ''process-elements'' config of
                      Inl e \<Rightarrow> Inl e
                    | Inr b3 \<Rightarrow>
                      (case (if b3 then map_sum id (\<lambda>v. result\<lparr>processElements := Some v\<rparr>)
                                          (js_get config ''process-elements'')
                             else Inr result) of
                         Inl e \<Rightarrow> Inl e
                       | Inr result \<Rightarrow> Inr (Options result)))))))
     else if configType = ''undefined'' then Inr Disabled
     else Inl (Error (createErrorMessage ruleName usage config)))"

text \<open>
  The options as the validators read them: defined when both numeric options are numbers.
  Other values of the two numeric keys (strings, booleans) would go through JavaScript's
  coercions in \<^verbatim>\<open>>\<close> and \<^verbatim>\<open>+\<close>, which are not modelled.
\<close>

definition numericOptions :: "jsval config \<Rightarrow> int config option" where
  "numericOptions c =
    (case (maxLength c, indentation c) of
       (JNum m, JNum i) \<Rightarrow>
         Some \<lparr>maxLength = m, indentation = i, processElements = processElements c\<rparr>
     | _ \<Rightarrow> None)"

section \<open>The syntax tree\<close>

text \<open>
  The tree comes from the template parser. Each record holds the properties the rule reads.
  A coordinate has a 1-based line and a 0-based column.
\<close>

record position =
  line :: int
  column :: int

record span =
  loc_start :: position
  loc_end :: position

datatype node_type =
    BlockStatement
  | MustacheStatement
  | ElementNode
  | SubExpression
  | PathExpression
  | StringLiteral
  | NumberLiteral
  | BooleanLiteral
  | NullLiteral
  | UndefinedLiteral
  | HashPair
  | AttrNode
  | TextNode
  | ConcatStatement
  | CommentStatement

text \<open>
  The \<^verbatim>\<open>value\<close> property of an entry: missing (positional paths and sub-expressions have
  none), a primitive (the value of a literal), or a node with its type and location (the
  value of a named argument or of an attribute).
\<close>

datatype field_value =
    Missing
  | Primitive jsval
  | Node node_type span

text \<open>
  An entry of one of the three sequences: a positional argument (an expression), a named
  argument (a hash pair) or an attribute. \<open>original\<close>, \<open>name\<close> and \<open>key\<close> are
  \<open>JUndefined\<close> where the entry has no such property; \<open>path_original\<close> is
  \<^verbatim>\<open>param.path.original\<close>, \<open>None\<close> when the entry has no \<^verbatim>\<open>path\<close>.
\<close>

record param =
  p_type :: node_type
  p_loc :: span
  original :: jsval
  name :: jsval
  key :: jsval
  path_original :: "string option"
  p_value :: field_value

record child =
  c_type :: node_type
  c_loc :: span

text \<open>
  A visited node. \<open>path_name\<close> is \<^verbatim>\<open>node.path.original\<close>, \<open>path_loc_source\<close> is
  \<^verbatim>\<open>node.path.loc.source\<close>, \<open>hash_pairs\<close> and \<open>hash_loc\<close> are \<^verbatim>\<open>node.hash.pairs\<close> and
  \<^verbatim>\<open>node.hash.loc\<close>, \<open>program_loc\<close> and \<open>blockParams\<close> are \<^verbatim>\<open>node.program.loc\<close> and
  \<^verbatim>\<open>node.program.blockParams\<close>. The rule reads of each node only the properties its type
  has: \<open>attributes\<close>, \<open>children\<close>, \<open>tag\<close> and \<open>selfClosing\<close> of an element, the others of an
  invocation.
\<close>

record node =
  ntype :: node_type
  loc :: span
  path_name :: string
  path_loc_source :: "string option"
  params :: "param list"
  hash_pairs :: "param list"
  hash_loc :: span
  program_loc :: span
  blockParams :: "string list option"
  attributes :: "param list"
  children :: "child list"
  tag :: string
  selfClosing :: bool

section \<open>Diagnostics and the source text\<close>

text \<open>
  A message is a fixed sentence with holes; it is kept as the sentence's kind and the values
  of its holes: the construct's name, the actual and the expected coordinate.
\<close>

datatype message =
    IncorrectParam string jsval position position
  | IncorrectBlockParams string position position
  | IncorrectCloseBraces string position position
  | IncorrectCloseBracket string position position
  | IncorrectCloseTag string position position

record diagnostic =
  message :: message
  d_line :: int
  d_column :: int
  d_source :: string

text \<open>
  \<^verbatim>\<open>sourceForNode\<close> belongs to the base class \<^verbatim>\<open>lib/rules/base.js\<close> and is a parameter: it
  receives the start coordinate, the end line and the end column (absent in one call).
  \<^verbatim>\<open>this.source\<close> is the list of the source's lines.
\<close>

type_synonym sourceForNode = "position \<Rightarrow> int \<Rightarrow> int option \<Rightarrow> string"

definition sourceForLoc :: "sourceForNode \<Rightarrow> span \<Rightarrow> string" where
  "sourceForLoc sfn l = sfn (loc_start l) (line (loc_end l)) (Some (column (loc_end l)))"

definition sourceLine :: "string list \<Rightarrow> int \<Rightarrow> string option" where
  "sourceLine src i = (if 0 \<le> i \<and> i < int (length src) then Some (src ! nat i) else None)"

definition getWhiteSpaceLength :: "string \<Rightarrow> int" where
  "getWhiteSpaceLength statement = int (length (takeWhile isWhiteSpace statement))"

section \<open>The applicability gate\<close>

definition getEndLocationForOpen :: "node \<Rightarrow> position" where
  "getEndLocationForOpen node =
    (if ntype node = BlockStatement then loc_start (program_loc node)
     else if ntype node = ElementNode \<and> length (children node) > 0
       then loc_start (c_loc (hd (children node)))
     else loc_end (loc node))"

definition canApplyRule :: "node \<Rightarrow> node_type \<Rightarrow> int config \<Rightarrow> bool" where
  "canApplyRule node type config =
    (let end = getEndLocationForOpen node;
         start = loc_start (loc node)
     in if line start = line end then column end - column start > maxLength config
        else True)"

section \<open>The rule\<close>

text \<open>
  A method of the rule can update the tree, log diagnostics and throw. It takes the node and
  the log so far and returns the node and the log as it leaves them, with an error if it
  threw and its result otherwise.
\<close>

type_synonym 'a outcome = "node \<times> diagnostic list \<times> (error + 'a)"

record location =
  actual :: "position option"
  expected :: position

subsection \<open>Block parameters\<close>

text \<open>
  \<open>actual\<close> is \<open>None\<close> where the source leaves the variable unassigned.
  \<^verbatim>\<open>paramOrHashPairEndLoc\<close> is declared without a value and assigned by two independent
  \<^verbatim>\<open>if\<close> statements, the one for the named arguments last.
\<close>

definition getBlockParamStartLoc :: "sourceForNode \<Rightarrow> string list \<Rightarrow> node \<Rightarrow> error + location" where
  "getBlockParamStartLoc sfn src node =
    (let programStartLoc = loc_start (program_loc node);
         nodeStart = loc_start (loc node)
     in
     if length (params node) = 0 \<and> length (hash_pairs node) = 0 then
       (let expectedLoc = \<lparr>line = line nodeStart + 1, column = column nodeStart\<rparr> in
        if line nodeStart = line programStartLoc then
          (let displayName = ''{{#'' @ path_name node in
           Inr \<lparr>actual = Some \<lparr>line = line nodeStart, column = int (length displayName)\<rparr>,
                expected = expectedLoc\<rparr>)
        else
          (let source = sfn \<lparr>line = line programStartLoc, column = 0\<rparr>
                            (line programStartLoc) (Some (column programStartLoc)) in
           Inr \<lparr>actual = Some \<lparr>line = line programStartLoc,
                                column = getWhiteSpaceLength source\<rparr>,
                expected = expectedLoc\<rparr>))
     else
       (let paramOrHashPairEndLoc0 =
              (if length (params node) \<noteq> 0
               then Some (loc_end (p_loc (last (params node)))) else None);
            paramOrHashPairEndLoc1 =
              (if length (hash_pairs node) \<noteq> 0
               then Some (loc_end (hash_loc node)) else paramOrHashPairEndLoc0)
        in
        case paramOrHashPairEndLoc1 of
          None \<Rightarrow> Inl TypeError
        | Some paramOrHashPairEndLoc \<Rightarrow>
          (let expectedLoc = \<lparr>line = line paramOrHashPairEndLoc + 1,
                            column = column (loc_start (loc node))\<rparr> in
           if line paramOrHashPairEndLoc = line programStartLoc then
             Inr \<lparr>actual = Some paramOrHashPairEndLoc, expected = expectedLoc\<rparr>
           else if line paramOrHashPairEndLoc < line programStartLoc then
             (let hashPairLineEndSource =
                    js_trim (sfn paramOrHashPairEndLoc (line paramOrHashPairEndLoc) None) in
              if hashPairLineEndSource \<noteq> [] then
                Inr \<lparr>actual = Some paramOrHashPairEndLoc, expected = expectedLoc\<rparr>
              else
                (case sourceLine src (line programStartLoc - 1) of
                   None \<Rightarrow> Inl TypeError
                 | Some statement \<Rightarrow>
                     Inr \<lparr>actual = Some \<lparr>line = line programStartLoc,
                                          column = getWhiteSpaceLength statement\<rparr>,
                          expected = expectedLoc\<rparr>))
           else Inr \<lparr>actual = None, expected = expectedLoc\<rparr>)))"

definition validateBlockParams :: "sourceForNode \<Rightarrow> string list \<Rightarrow> node \<Rightarrow> diagnostic list \<Rightarrow> unit outcome" where
  "validateBlockParams sfn src node log =
    (case getBlockParamStartLoc sfn src node of
       Inl e \<Rightarrow> (node, log, Inl e)
     | Inr location \<Rightarrow>
       (case actual location of
          None \<Rightarrow> (node, log, Inl TypeError)
        | Some actualLoc \<Rightarrow>
          (let expectedLoc = expected location in
           if line actualLoc \<noteq> line expectedLoc \<or> column actualLoc \<noteq> column expectedLoc then
             (let blockParamStatement =
                    js_trim (sfn actualLoc (line (loc_start (program_loc node)))
                                        (Some (column (loc_start (program_loc node)))))
              in (node,
                  log @ [\<lparr>message = IncorrectBlockParams blockParamStatement actualLoc expectedLoc,
                          d_line = line actualLoc, d_column = column actualLoc,
                          d_source = sourceForLoc sfn (loc node)\<rparr>],
                  Inr ()))
           else (node, log, Inr ()))))"

subsection \<open>Parameters and attributes\<close>

text \<open>
  \<^verbatim>\<open>param[namePath]\<close>, and the display name of an entry: \<^verbatim>\<open>param.path.original\<close> when the
  named property is falsy, which throws when the entry has no \<^verbatim>\<open>path\<close>.
\<close>

definition getProp :: "string \<Rightarrow> param \<Rightarrow> jsval" where
  "getProp namePath param =
    (if namePath = ''original'' then original param
     else if namePath = ''name'' then name param
     else if namePath = ''key'' then key param
     else JUndefined)"

definition getParamName :: "string \<Rightarrow> param \<Rightarrow> error + jsval" where
  "getParamName namePath param =
    (if truthy (getProp namePath param) then Inr (getProp namePath param)
     else case path_original param of
            None \<Rightarrow> Inl TypeError
          | Some s \<Rightarrow> Inr (JStr s))"

text \<open>
  \<^verbatim>\<open>param.value ? param.value.type : param.type\<close>; a truthy primitive has no \<^verbatim>\<open>type\<close>.
\<close>

definition valueType :: "param \<Rightarrow> node_type option" where
  "valueType param =
    (case p_value param of
       Missing \<Rightarrow> Some (p_type param)
     | Primitive v \<Rightarrow> (if truthy v then None else Some (p_type param))
     | Node t l \<Rightarrow> Some t)"

text \<open>
  The end of the loop body: the line the next entry is expected on, before the increment.
  \<^verbatim>\<open>param.value.loc.end.line\<close> throws when \<^verbatim>\<open>param.value\<close> is not a node.
\<close>

definition advance :: "param \<Rightarrow> int \<Rightarrow> error + int" where
  "advance param expectedLineStart =
    (let type = valueType param in
     if type = Some SubExpression then
       (if line (loc_start (p_loc param)) \<noteq> line (loc_end (p_loc param))
        then Inr (line (loc_end (p_loc param)))
        else Inr expectedLineStart)
     else if type = Some MustacheStatement then
       (case p_value param of
          Node t l \<Rightarrow> Inr (line (loc_end l))
        | _ \<Rightarrow> Inl TypeError)
     else Inr expectedLineStart)"

text \<open>The \<^verbatim>\<open>params.forEach\<close> loop of \<^verbatim>\<open>iterateParams\<close>.\<close>

fun forEach_param ::
  "sourceForNode \<Rightarrow> string \<Rightarrow> string \<Rightarrow> int \<Rightarrow> node \<Rightarrow> param list \<Rightarrow> int \<Rightarrow> diagnostic list
   \<Rightarrow> diagnostic list \<times> (error + int)" where
  "forEach_param sfn paramType namePath expectedColumnStart node [] expectedLineStart log =
     (log, Inr expectedLineStart)"
| "forEach_param sfn paramType namePath expectedColumnStart node (param # rest) expectedLineStart log =
     (let actualStartLocation = loc_start (p_loc param) in
      case (if expectedLineStart \<noteq> line actualStartLocation \<or>
               expectedColumnStart \<noteq> column actualStartLocation
            then (case getParamName namePath param of
                    Inl e \<Rightarrow> Inl e
                  | Inr paramName \<Rightarrow>
                      Inr (log @ [\<lparr>message = IncorrectParam paramType paramName actualStartLocation
                                     \<lparr>line = expectedLineStart, column = expectedColumnStart\<rparr>,
                                   d_line = line actualStartLocation,
                                   d_column = column actualStartLocation,
                                   d_source = sourceForLoc sfn (loc node)\<rparr>]))
            else Inr log) of
        Inl e \<Rightarrow> (log, Inl e)
      | Inr log' \<Rightarrow>
        (case advance param expectedLineStart of
           Inl e \<Rightarrow> (log', Inl e)
         | Inr expectedLineStart' \<Rightarrow>
             forEach_param sfn paramType namePath expectedColumnStart node rest
               (expectedLineStart' + 1) log'))"

text \<open>
  \<^verbatim>\<open>iterateParams\<close> receives one of the node's own arrays, so the update of
  \<^verbatim>\<open>node.params[0]\<close> is seen by the loop over \<^verbatim>\<open>params\<close> when that is \<^verbatim>\<open>node.params\<close>.
  The argument \<open>paramsRef\<close> is therefore a reference into the node, read after the update.
\<close>

datatype params_ref =
    node_params
  | node_hash_pairs
  | node_attributes

fun deref :: "node \<Rightarrow> params_ref \<Rightarrow> param list" where
  "deref node node_params = params node"
| "deref node node_hash_pairs = hash_pairs node"
| "deref node node_attributes = attributes node"

definition decrementColumn :: "param \<Rightarrow> param" where
  "decrementColumn p =
     p\<lparr>p_loc := (p_loc p)\<lparr>loc_start := (loc_start (p_loc p))\<lparr>column := column (loc_start (p_loc p)) - 1\<rparr>\<rparr>\<rparr>"

definition synthetic :: "node \<Rightarrow> bool" where
  "synthetic node = (path_loc_source node = Some ''(synthetic)'')"

definition iterateParams ::
  "sourceForNode \<Rightarrow> params_ref \<Rightarrow> string \<Rightarrow> int \<Rightarrow> int \<Rightarrow> node \<Rightarrow> diagnostic list \<Rightarrow> int outcome" where
  "iterateParams sfn paramsRef type expectedLineStart expectedColumnStart node log =
    (if type = ''positional'' then
       (if synthetic node then
          (if ntype node = BlockStatement then
             (case params node of
                [] \<Rightarrow> (node, log, Inl TypeError)
              | p # ps \<Rightarrow>
                (let node' = node\<lparr>params := decrementColumn p # ps\<rparr>;
                     r = forEach_param sfn ''positional param'' ''original'' expectedColumnStart
                           node' (deref node' paramsRef) (expectedLineStart - 1) log
                 in (node', fst r, snd r)))
           else
             (let r = forEach_param sfn ''positional param'' ''original'' expectedColumnStart
                        node (deref node paramsRef) (expectedLineStart - 1) log
              in (node, fst r, snd r)))
        else
          (let r = forEach_param sfn ''positional param'' ''original'' expectedColumnStart
                     node (deref node paramsRef) expectedLineStart log
           in (node, fst r, snd r)))
     else if type = ''htmlAttribute'' then
       (let r = forEach_param sfn ''htmlAttribute'' ''name'' expectedColumnStart
                  node (deref node paramsRef) expectedLineStart log
        in (node, fst r, snd r))
     else
       (let r = forEach_param sfn ''attribute'' ''key'' expectedColumnStart
                  node (deref node paramsRef) expectedLineStart log
        in (node, fst r, snd r)))"

definition validateParams :: "int config \<Rightarrow> sourceForNode \<Rightarrow> node \<Rightarrow> diagnostic list \<Rightarrow> int outcome" where
  "validateParams config sfn node log =
    (let expectedColumnStart = column (loc_start (loc node)) + indentation config;
         expectedLineStart = line (loc_start (loc node)) + 1
     in
     if ntype node = ElementNode then
       iterateParams sfn node_attributes ''htmlAttribute'' expectedLineStart expectedColumnStart node log
     else
       (case iterateParams sfn node_params ''positional'' expectedLineStart expectedColumnStart node log of
          (node', log', Inl e) \<Rightarrow> (node', log', Inl e)
        | (node', log', Inr expectedLineStart') \<Rightarrow>
            iterateParams sfn node_hash_pairs ''attribute'' expectedLineStart' expectedColumnStart node' log'))"

subsection \<open>Closing delimiters\<close>

definition validateCloseBrace :: "sourceForNode \<Rightarrow> node \<Rightarrow> int \<Rightarrow> diagnostic list \<Rightarrow> unit outcome" where
  "validateCloseBrace sfn node expectedStartLine log =
    (let end = getEndLocationForOpen node;
         actualColumnStartLocation =
           (if ntype node = ElementNode \<and> \<not> selfClosing node then 1 else 2);
         actualStartLocation =
           \<lparr>line = line end, column = column end - actualColumnStartLocation\<rparr>;
         expectedStartLocation =
           \<lparr>line = expectedStartLine, column = column (loc_start (loc node))\<rparr>;
         componentName = (if ntype node = ElementNode then tag node else path_name node)
     in
     if line actualStartLocation \<noteq> line expectedStartLocation \<or>
        column actualStartLocation \<noteq> column expectedStartLocation then
       (let message0 = IncorrectCloseBraces componentName actualStartLocation expectedStartLocation;
            message1 =
              (if ntype node = ElementNode
               then IncorrectCloseBracket componentName actualStartLocation expectedStartLocation
               else message0)
        in (node,
            log @ [\<lparr>message = message1, d_line = line actualStartLocation,
                    d_column = column actualStartLocation,
                    d_source = sourceForLoc sfn (loc node)\<rparr>],
            Inr ()))
     else (node, log, Inr ()))"

definition validateClosingTag :: "sourceForNode \<Rightarrow> node \<Rightarrow> int \<Rightarrow> diagnostic list \<Rightarrow> unit outcome" where
  "validateClosingTag sfn node expectedStartLine log =
    (let actualColumnStartLocation = 3 + int (length (tag node));
         actualStartLocation =
           \<lparr>line = line (loc_end (loc node)),
            column = column (loc_end (loc node)) - actualColumnStartLocation\<rparr>;
         expectedStartLocation =
           \<lparr>line = expectedStartLine, column = column (loc_start (loc node))\<rparr>;
         tagName = (if ntype node = ElementNode then tag node else path_name node)
     in
     if line actualStartLocation \<noteq> line expectedStartLocation \<or>
        column actualStartLocation \<noteq> column expectedStartLocation then
       (node,
        log @ [\<lparr>message = IncorrectCloseTag tagName actualStartLocation expectedStartLocation,
                d_line = line actualStartLocation,
                d_column = column actualStartLocation,
                d_source = sourceForLoc sfn (loc node)\<rparr>],
        Inr ())
     else (node, log, Inr ()))"

subsection \<open>The two invocation forms\<close>

text \<open>A result \<open>None\<close> is \<^verbatim>\<open>undefined\<close>.\<close>

definition validateNonBlockForm ::
  "int config \<Rightarrow> sourceForNode \<Rightarrow> node \<Rightarrow> diagnostic list \<Rightarrow> int option outcome" where
  "validateNonBlockForm config sfn node log =
    (if length (params node) \<noteq> 0 \<or> length (hash_pairs node) \<noteq> 0 then
       (case validateParams config sfn node log of
          (node', log', Inl e) \<Rightarrow> (node', log', Inl e)
        | (node', log', Inr expectedStartLine) \<Rightarrow>
          (case validateCloseBrace sfn node' expectedStartLine log' of
             (node'', log'', Inl e) \<Rightarrow> (node'', log'', Inl e)
           | (node'', log'', Inr u) \<Rightarrow> (node'', log'', Inr (Some expectedStartLine))))
     else (node, log, Inr None))"

definition validateBlockForm ::
  "int config \<Rightarrow> sourceForNode \<Rightarrow> string list \<Rightarrow> node \<Rightarrow> diagnostic list \<Rightarrow> unit outcome" where
  "validateBlockForm config sfn src node log =
    (case (if length (params node) \<noteq> 0 \<or> length (hash_pairs node) \<noteq> 0
           then (case validateParams config sfn node log of
                   (node', log', Inl e) \<Rightarrow> (node', log', Inl e)
                 | (node', log', Inr l) \<Rightarrow> (node', log', Inr ()))
           else (node, log, Inr ())) of
       (node', log', Inl e) \<Rightarrow> (node', log', Inl e)
     | (node', log', Inr u) \<Rightarrow>
         (if (case blockParams node' of None \<Rightarrow> False | Some bs \<Rightarrow> length bs \<noteq> 0)
          then validateBlockParams sfn src node' log'
          else (node', log', Inr ())))"

subsection \<open>The visitor\<close>

definition visitor_BlockStatement ::
  "int config \<Rightarrow> sourceForNode \<Rightarrow> string list \<Rightarrow> node \<Rightarrow> diagnostic list \<Rightarrow> int option outcome" where
  "visitor_BlockStatement config sfn src node log =
    (if canApplyRule node (ntype node) config then
       (case validateBlockForm config sfn src node log of
          (node', log', Inl e) \<Rightarrow> (node', log', Inl e)
        | (node', log', Inr u) \<Rightarrow> (node', log', Inr None))
     else (node, log, Inr None))"

definition visitor_MustacheStatement ::
  "int config \<Rightarrow> sourceForNode \<Rightarrow> string list \<Rightarrow> node \<Rightarrow> diagnostic list \<Rightarrow> int option outcome" where
  "visitor_MustacheStatement config sfn src node log =
    (if canApplyRule node (ntype node) config then validateNonBlockForm config sfn node log
     else (node, log, Inr (Some (line (loc_end (loc node))))))"

definition visitor_ElementNode ::
  "int config \<Rightarrow> sourceForNode \<Rightarrow> string list \<Rightarrow> node \<Rightarrow> diagnostic list \<Rightarrow> int option outcome" where
  "visitor_ElementNode config sfn src node log =
    (if truthy (case processElements config of None \<Rightarrow> JUndefined | Some v \<Rightarrow> v) then
       (case (if canApplyRule node (ntype node) config then
                (case (if length (attributes node) \<noteq> 0 then
                         (case validateParams config sfn node log of
                            (node', log', Inl e) \<Rightarrow> (node', log', Inl e)
                          | (node', log', Inr expectedCloseBraceLine) \<Rightarrow>
                              validateCloseBrace sfn node' expectedCloseBraceLine log')
                       else (node, log, Inr ())) of
                   (node', log', Inl e) \<Rightarrow> (node', log', Inl e)
                 | (node', log', Inr u) \<Rightarrow>
                     (if length (children node') \<noteq> 0 then
                        (let lastChild = last (children node');
                             expectedStartLine =
                               (if c_type lastChild = BlockStatement
                                then line (loc_end (c_loc lastChild)) + 1
                                else line (loc_end (c_loc lastChild)))
                         in validateClosingTag sfn node' expectedStartLine log')
                      else (node', log', Inr ())))
              else (node, log, Inr ())) of
          (node', log', Inl e) \<Rightarrow> (node', log', Inl e)
        | (node', log', Inr u) \<Rightarrow> (node', log', Inr (Some (line (loc_end (loc node'))))))
     else (node, log, Inr None))"

text \<open>
  The tree walker calls the callback registered for the node's type; the other node types
  have none.
\<close>

definition visitor ::
  "int config \<Rightarrow> sourceForNode \<Rightarrow> string list \<Rightarrow> node \<Rightarrow> diagnostic list \<Rightarrow> int option outcome" where
  "visitor config sfn src node log =
    (if ntype node = BlockStatement then visitor_BlockStatement config sfn src node log
     else if ntype node = MustacheStatement then visitor_MustacheStatement config sfn src node log
     else if ntype node = ElementNode then visitor_ElementNode config sfn src node log
     else (node, log, Inr None))"

section \<open>The parameter alignment, as the specification words it\<close>

text \<open>
  The sequence checked for a node: the attributes of an element, the positional arguments
  followed by the named ones of an invocation, each entry with the words of its diagnostic
  (the kind of entry and the property that names it).
\<close>

definition entries :: "node \<Rightarrow> (string \<times> string \<times> param) list" where
  "entries node =
    (if ntype node = ElementNode
     then map (\<lambda>p. (''htmlAttribute'', ''name'', p)) (attributes node)
     else map (\<lambda>p. (''positional param'', ''original'', p)) (params node) @
          map (\<lambda>p. (''attribute'', ''key'', p)) (hash_pairs node))"

text \<open>
  The line an entry pulls the expectation to: its own end line when its value is a
  sub-expression and the entry spans several lines, its value's end line when the value is
  an inline invocation.
\<close>

definition pullsTo :: "param \<Rightarrow> int option" where
  "pullsTo e =
    (if valueType e = Some SubExpression \<and>
        line (loc_start (p_loc e)) \<noteq> line (loc_end (p_loc e))
     then Some (line (loc_end (p_loc e)))
     else if valueType e = Some MustacheStatement
     then (case p_value e of Node t l \<Rightarrow> Some (line (loc_end l)) | _ \<Rightarrow> None)
     else None)"

definition lineAfter :: "int \<Rightarrow> param \<Rightarrow> int" where
  "lineAfter l e = (case pullsTo e of None \<Rightarrow> l | Some k \<Rightarrow> k) + 1"

fun expectedLines :: "int \<Rightarrow> param list \<Rightarrow> int list" where
  "expectedLines l [] = []"
| "expectedLines l (e # es) = l # expectedLines (lineAfter l e) es"

definition nextLine :: "int \<Rightarrow> param list \<Rightarrow> int" where
  "nextLine l es = foldl lineAfter l es"

text \<open>
  The baseline: one line below the node's start, and the node's start line itself for an
  invocation whose path location is synthetic.
\<close>

definition baseline :: "node \<Rightarrow> int" where
  "baseline node =
    (if ntype node \<noteq> ElementNode \<and> synthetic node
     then line (loc_start (loc node))
     else line (loc_start (loc node)) + 1)"

definition expectedCoordinates :: "int config \<Rightarrow> node \<Rightarrow> position list" where
  "expectedCoordinates config node =
     map (\<lambda>l. \<lparr>line = l, column = column (loc_start (loc node)) + indentation config\<rparr>)
       (expectedLines (baseline node) (map (\<lambda>x. snd (snd x)) (entries node)))"

text \<open>
  The name a diagnostic cites, for an entry that has one: the named property when it is
  truthy, the entry's path otherwise.
\<close>

definition citedName :: "string \<Rightarrow> param \<Rightarrow> jsval" where
  "citedName namePath e =
    (if truthy (getProp namePath e) then getProp namePath e
     else case path_original e of None \<Rightarrow> JUndefined | Some s \<Rightarrow> JStr s)"

definition report :: "sourceForNode \<Rightarrow> node \<Rightarrow> (string \<times> string \<times> param) \<times> position \<Rightarrow> diagnostic" where
  "report sfn node x =
    (case x of ((paramType, namePath, e), expectedLoc) \<Rightarrow>
      \<lparr>message = IncorrectParam paramType (citedName namePath e) (loc_start (p_loc e)) expectedLoc,
       d_line = line (loc_start (p_loc e)),
       d_column = column (loc_start (p_loc e)),
       d_source = sourceForLoc sfn (loc node)\<rparr>)"

definition misplaced :: "(string \<times> string \<times> param) \<times> position \<Rightarrow> bool" where
  "misplaced x =
    (case x of ((paramType, namePath, e), expectedLoc) \<Rightarrow>
       line (loc_start (p_loc e)) \<noteq> line expectedLoc \<or>
       column (loc_start (p_loc e)) \<noteq> column expectedLoc)"

text \<open>
  The diagnostics of one sequence \<open>es\<close> whose first entry is expected on line \<open>l\<close>, all
  entries at column \<open>c\<close>.
\<close>

definition reportsFor ::
  "sourceForNode \<Rightarrow> node \<Rightarrow> string \<Rightarrow> string \<Rightarrow> int \<Rightarrow> int \<Rightarrow> param list \<Rightarrow> diagnostic list" where
  "reportsFor sfn node paramType namePath c l es =
     map (report sfn node)
       (filter misplaced
          (zip (map (\<lambda>e. (paramType, namePath, e)) es)
               (map (\<lambda>l. \<lparr>line = l, column = c\<rparr>) (expectedLines l es))))"

definition reports :: "int config \<Rightarrow> sourceForNode \<Rightarrow> node \<Rightarrow> diagnostic list" where
  "reports config sfn node =
     map (report sfn node) (filter misplaced (zip (entries node) (expectedCoordinates config node)))"

text \<open>
  The entries the loop can name and advance over: an entry with a truthy naming property or
  a path, that is not itself a statement.
\<close>

definition entryOk :: "string \<times> string \<times> param \<Rightarrow> bool" where
  "entryOk x =
    (case x of (paramType, namePath, e) \<Rightarrow>
       (truthy (getProp namePath e) \<or> path_original e \<noteq> None) \<and>
       p_type e \<noteq> MustacheStatement)"

text \<open>The node as the correction for a synthetic path leaves it.\<close>

definition corrected :: "node \<Rightarrow> node" where
  "corrected node =
    (if ntype node = BlockStatement \<and> synthetic node \<and> params node \<noteq> []
     then node\<lparr>params := decrementColumn (hd (params node)) # tl (params node)\<rparr>
     else node)"

section \<open>Example templates\<close>

text \<open>
  Modelled from the spec: the source accessor \<^verbatim>\<open>sourceForNode\<close> of the base class
  (\<^verbatim>\<open>lib/rules/base.js\<close> is not among the sources), which "given a half-open or closed
  line/column span, returns the exact substring". Lines are joined by a line feed, and a
  missing end column reads to the end of the line, as \<^verbatim>\<open>slice\<close> does. It serves as the
  accessor of the examples.
\<close>

definition js_slice :: "string \<Rightarrow> int \<Rightarrow> int option \<Rightarrow> string" where
  "js_slice s a b =
    (case b of None \<Rightarrow> drop (nat a) s | Some b \<Rightarrow> take (nat b - nat a) (drop (nat a) s))"

fun joinLines :: "string list \<Rightarrow> string" where
  "joinLines [] = []"
| "joinLines [l] = l"
| "joinLines (l # ls) = l @ CHR 0x0A # joinLines ls"

definition sourceForNodeIn :: "string list \<Rightarrow> sourceForNode" where
  "sourceForNodeIn src start endLine endColumn =
    (case take (nat (endLine - line start + 1)) (drop (nat (line start - 1)) src) of
       [] \<Rightarrow> []
     | [l] \<Rightarrow> js_slice l (column start) endColumn
     | l # rest \<Rightarrow>
         joinLines (drop (nat (column start)) l # butlast rest @ [js_slice (last rest) 0 endColumn]))"

text \<open>
  Modelled from the spec: the helper \<^verbatim>\<open>createErrorMessage\<close>
  (\<^verbatim>\<open>lib/helpers/create-error-message.js\<close> is not among the sources), which builds "a
  multi-line usage description of the three accepted shapes": here the usage lines, one per
  line.
\<close>

definition usageText :: createErrorMessage where
  "usageText ruleName lines config = joinLines lines"

definition at :: "int \<Rightarrow> int \<Rightarrow> position" where
  "at l c = \<lparr>line = l, column = c\<rparr>"

definition between :: "position \<Rightarrow> position \<Rightarrow> span" where
  "between a b = \<lparr>loc_start = a, loc_end = b\<rparr>"

definition pathParam :: "string \<Rightarrow> span \<Rightarrow> param" where
  "pathParam s l =
     \<lparr>p_type = PathExpression, p_loc = l, original = JStr s, name = JUndefined,
      key = JUndefined, path_original = None, p_value = Missing\<rparr>"

definition numberParam :: "int \<Rightarrow> span \<Rightarrow> param" where
  "numberParam n l =
     \<lparr>p_type = NumberLiteral, p_loc = l, original = JNum n, name = JUndefined,
      key = JUndefined, path_original = None, p_value = Primitive (JNum n)\<rparr>"

definition hashPair :: "string \<Rightarrow> span \<Rightarrow> node_type \<Rightarrow> span \<Rightarrow> param" where
  "hashPair k l t vl =
     \<lparr>p_type = HashPair, p_loc = l, original = JUndefined, name = JUndefined,
      key = JStr k, path_original = None, p_value = Node t vl\<rparr>"

definition invocation :: "node_type \<Rightarrow> span \<Rightarrow> string \<Rightarrow> param list \<Rightarrow> param list \<Rightarrow> span \<Rightarrow> node" where
  "invocation t l p ps hs hl =
     \<lparr>ntype = t, loc = l, path_name = p, path_loc_source = None, params = ps,
      hash_pairs = hs, hash_loc = hl, program_loc = between (at 1 0) (at 1 0),
      blockParams = None, attributes = [], children = [], tag = [], selfClosing = False\<rparr>"

definition defaults :: "int config" where
  "defaults = \<lparr>maxLength = 80, indentation = 2, processElements = Some (JBool True)\<rparr>"

text \<open>
  An inline invocation over three lines whose only argument, the number \<^verbatim>\<open>0\<close>, is indented
  by four columns.
\<close>

definition zeroSource :: "string list" where
  "zeroSource = [''{{foo-bar'', ''    0'', ''}}'']"

definition zeroExample :: node where
  "zeroExample =
     invocation MustacheStatement (between (at 1 0) (at 3 2)) ''foo-bar''
       [numberParam 0 (between (at 2 4) (at 2 5))] [] (between (at 1 0) (at 1 0))"

text \<open>
  A block invocation with a positional and a named argument and a block parameter:
  its six lines are \<^verbatim>\<open>{{#foo-bar\<close>, \<^verbatim>\<open>  baz\<close>, \<^verbatim>\<open>  a=b\<close>, \<^verbatim>\<open>as |x|}}\<close>, \<^verbatim>\<open>  hi\<close>,
  \<^verbatim>\<open>{{/foo-bar}}\<close>.
\<close>

definition blockSource :: "string list" where
  "blockSource = [''{{#foo-bar'', ''  baz'', ''  a=b'', ''as |x|}}'', ''  hi'', ''{{/foo-bar}}'']"

definition blockExample :: node where
  "blockExample =
     (invocation BlockStatement (between (at 1 0) (at 6 12)) ''foo-bar''
        [pathParam ''baz'' (between (at 2 2) (at 2 5))]
        [hashPair ''a'' (between (at 3 2) (at 3 5)) PathExpression (between (at 3 4) (at 3 5))]
        (between (at 3 2) (at 3 5)))
     \<lparr>program_loc := between (at 4 8) (at 6 0), blockParams := Some [''x'']\<rparr>"

text \<open>
  The same block with its path location marked synthetic and without the positional
  argument (lines \<^verbatim>\<open>{{#foo-bar\<close>, \<^verbatim>\<open>  a=b\<close>, \<^verbatim>\<open>as |x|}}\<close>, \<^verbatim>\<open>  hi\<close>, \<^verbatim>\<open>{{/foo-bar}}\<close>).
\<close>

definition syntheticBlockSource :: "string list" where
  "syntheticBlockSource = [''{{#foo-bar'', ''  a=b'', ''as |x|}}'', ''  hi'', ''{{/foo-bar}}'']"

definition syntheticBlockExample :: node where
  "syntheticBlockExample =
     (invocation BlockStatement (between (at 1 0) (at 5 12)) ''foo-bar'' []
        [hashPair ''a'' (between (at 2 2) (at 2 5)) PathExpression (between (at 2 4) (at 2 5))]
        (between (at 2 2) (at 2 5)))
     \<lparr>path_loc_source := Some ''(synthetic)'',
      program_loc := between (at 3 8) (at 5 0), blockParams := Some [''x'']\<rparr>"

text \<open>
  A block with a synthetic path location and one positional argument, recorded at column 3
  (lines \<^verbatim>\<open>{{#foo-bar\<close>, \<^verbatim>\<open>  baz\<close>, \<^verbatim>\<open>}}\<close>, \<^verbatim>\<open>  hi\<close>, \<^verbatim>\<open>{{/foo-bar}}\<close>).
\<close>

definition syntheticArgSource :: "string list" where
  "syntheticArgSource = [''{{#foo-bar'', ''  baz'', ''}}'', ''  hi'', ''{{/foo-bar}}'']"

definition syntheticArgExample :: node where
  "syntheticArgExample =
     (invocation BlockStatement (between (at 1 0) (at 5 12)) ''foo-bar''
        [pathParam ''baz'' (between (at 2 3) (at 2 5))] [] (between (at 1 0) (at 1 0)))
     \<lparr>path_loc_source := Some ''(synthetic)'', program_loc := between (at 3 2) (at 5 0)\<rparr>"

text \<open>
  An inline invocation \<^verbatim>\<open>{{foo-bar\<close>, \<^verbatim>\<open>  baz\<close>, \<^verbatim>\<open>}}\<close> whose path location is marked
  synthetic.
\<close>

definition syntheticSource :: "string list" where
  "syntheticSource = [''{{foo-bar'', ''  baz'', ''}}'']"

definition syntheticExample :: node where
  "syntheticExample =
     (invocation MustacheStatement (between (at 1 0) (at 3 2)) ''foo-bar''
        [pathParam ''baz'' (between (at 2 2) (at 2 5))] [] (between (at 1 0) (at 1 0)))
     \<lparr>path_loc_source := Some ''(synthetic)''\<rparr>"

text \<open>
  An inline invocation with a positional argument, a named argument whose value is a
  sub-expression over two lines, and a named argument indented by four columns: lines
  \<^verbatim>\<open>{{foo-bar\<close>, \<^verbatim>\<open>  baz\<close>, \<^verbatim>\<open>  a=(b\<close>, \<^verbatim>\<open>    c)\<close>, \<^verbatim>\<open>    d=e\<close>, \<^verbatim>\<open>}}\<close>.
\<close>

definition inlineSource :: "string list" where
  "inlineSource = [''{{foo-bar'', ''  baz'', ''  a=(b'', ''    c)'', ''    d=e'', ''}}'']"

definition inlineExample :: node where
  "inlineExample =
     invocation MustacheStatement (between (at 1 0) (at 6 2)) ''foo-bar''
       [pathParam ''baz'' (between (at 2 2) (at 2 5))]
       [hashPair ''a'' (between (at 3 2) (at 4 6)) SubExpression (between (at 3 4) (at 4 6)),
        hashPair ''d'' (between (at 5 4) (at 5 7)) PathExpression (between (at 5 6) (at 5 7))]
       (between (at 3 2) (at 5 7))"

text \<open>An inline invocation on one line, \<open>n\<close> columns wide.\<close>

definition singleLine :: "int \<Rightarrow> node" where
  "singleLine n =
     invocation MustacheStatement (between (at 1 0) (at 1 n)) ''foo-bar''
       [pathParam ''baz'' (between (at 1 10) (at 1 13))] [] (between (at 1 0) (at 1 0))"

definition singleLineSource :: "string list" where
  "singleLineSource = [replicate 100 (CHR ''x'')]"

text \<open>An element \<^verbatim>\<open><div\<close>, \<^verbatim>\<open>    class=a\<close>, \<^verbatim>\<open>></div>\<close> with a misplaced attribute.\<close>

definition elementSource :: "string list" where
  "elementSource = [''<div'', ''    class=a'', ''></div>'']"

definition elementExample :: node where
  "elementExample =
     (invocation ElementNode (between (at 1 0) (at 3 7)) [] [] [] (between (at 1 0) (at 1 0)))
     \<lparr>tag := ''div'',
      attributes :=
        [\<lparr>p_type = AttrNode, p_loc = between (at 2 4) (at 2 11), original = JUndefined,
          name = JStr ''class'', key = JUndefined, path_original = None,
          p_value = Node TextNode (between (at 2 10) (at 2 11))\<rparr>]\<rparr>"

lemmas example_defs =
  at_def between_def pathParam_def numberParam_def hashPair_def invocation_def defaults_def
  zeroSource_def zeroExample_def blockSource_def blockExample_def
  syntheticBlockSource_def syntheticBlockExample_def syntheticSource_def syntheticExample_def
  syntheticArgSource_def syntheticArgExample_def
  inlineSource_def inlineExample_def
  singleLine_def singleLineSource_def elementSource_def elementExample_def

lemmas source_defs =
  sourceForNodeIn_def sourceForLoc_def js_slice_def sourceLine_def getWhiteSpaceLength_def
  js_trim_def isWhiteSpace_def

section \<open>Configuration: properties\<close>

lemma parseConfig_true:
  "parseConfig cem rn (JBool True) =
     Inr (Options \<lparr>maxLength = JNum 80, indentation = JNum 2,
                    processElements = Some (JBool True)\<rparr>)"
  by (simp add: parseConfig_def)

lemma parseConfig_false: "parseConfig cem rn (JBool False) = Inr Disabled"
  by (simp add: parseConfig_def)

lemma parseConfig_undefined: "parseConfig cem rn JUndefined = Inr Disabled"
  by (simp add: parseConfig_def)

lemma parseConfig_number:
  "parseConfig cem rn (JNum n) = Inl (Error (cem rn usage (JNum n)))"
  by (simp add: parseConfig_def)

lemma parseConfig_string:
  "parseConfig cem rn (JStr s) = Inl (Error (cem rn usage (JStr s)))"
  by (simp add: parseConfig_def)

lemma parseConfig_object:
  "parseConfig cem rn (JObj m) =
     Inr (Options
       \<lparr>maxLength = (case map_of m ''open-invocation-max-len'' of None \<Rightarrow> JNum 80 | Some v \<Rightarrow> v),
        indentation = (case map_of m ''indentation'' of None \<Rightarrow> JNum 2 | Some v \<Rightarrow> v),
        processElements = map_of m ''process-elements''\<rparr>)"
  by (cases "map_of m ''open-invocation-max-len''"; cases "map_of m ''indentation''";
      cases "map_of m ''process-elements''"; simp add: parseConfig_def Let_def)

lemma parseConfig_null_TypeError: "parseConfig cem rn JNull = Inl TypeError"
  by (simp add: parseConfig_def)

text \<open>
  C6. \<open>parseConfig\<close> is meant to raise the usage error for every configuration that is
  neither a boolean, a mapping nor absent, and to raise nothing else. On \<^verbatim>\<open>null\<close>, whose
  \<^verbatim>\<open>typeof\<close> is \<^verbatim>\<open>'object'\<close>, it enters the mapping branch and the first \<^verbatim>\<open>in\<close> test throws
  a TypeError: an error that is not the usage error, for a value that is not a mapping.
\<close>

theorem parseConfig_null: "parseConfig cem rn JNull = Inl TypeError"
  by (rule parseConfig_null_TypeError)

section \<open>The applicability gate: properties\<close>

lemma canApplyRule_type: "canApplyRule node t config = canApplyRule node t' config"
  by (simp add: canApplyRule_def)

text \<open>
  C4. The end of the opening is the body start of a block form, the start of the first child
  of an element with children, and the node's own end otherwise. When it lies on the node's
  start line, the rule applies exactly when the opening is wider than \<open>maxLength\<close>: not at
  \<open>maxLength\<close> columns, but at one more. When it lies on another line, the rule applies.
\<close>

theorem canApplyRule_gate:
  "getEndLocationForOpen node =
     (if ntype node = BlockStatement then loc_start (program_loc node)
      else if ntype node = ElementNode \<and> children node \<noteq> []
        then loc_start (c_loc (hd (children node)))
      else loc_end (loc node)) \<and>
   (line (getEndLocationForOpen node) = line (loc_start (loc node)) \<longrightarrow>
      canApplyRule node t config =
        (column (getEndLocationForOpen node) - column (loc_start (loc node)) > maxLength config)) \<and>
   (line (getEndLocationForOpen node) = line (loc_start (loc node)) \<and>
    column (getEndLocationForOpen node) - column (loc_start (loc node)) = maxLength config \<longrightarrow>
      \<not> canApplyRule node t config) \<and>
   (line (getEndLocationForOpen node) = line (loc_start (loc node)) \<and>
    column (getEndLocationForOpen node) - column (loc_start (loc node)) = maxLength config + 1 \<longrightarrow>
      canApplyRule node t config) \<and>
   (line (getEndLocationForOpen node) \<noteq> line (loc_start (loc node)) \<longrightarrow>
      canApplyRule node t config)"
  by (simp add: canApplyRule_def getEndLocationForOpen_def Let_def)

theorem canApplyRule_gate_witness:
  "line (getEndLocationForOpen (singleLine 80)) = line (loc_start (loc (singleLine 80))) \<and>
   column (getEndLocationForOpen (singleLine 80)) - column (loc_start (loc (singleLine 80)))
     = maxLength defaults \<and>
   \<not> canApplyRule (singleLine 80) MustacheStatement defaults \<and>
   line (getEndLocationForOpen (singleLine 81)) = line (loc_start (loc (singleLine 81))) \<and>
   column (getEndLocationForOpen (singleLine 81)) - column (loc_start (loc (singleLine 81)))
     = maxLength defaults + 1 \<and>
   canApplyRule (singleLine 81) MustacheStatement defaults \<and>
   line (getEndLocationForOpen blockExample) \<noteq> line (loc_start (loc blockExample)) \<and>
   canApplyRule blockExample BlockStatement defaults"
  using canApplyRule_gate [of "singleLine 80" MustacheStatement defaults]
    canApplyRule_gate [of "singleLine 81" MustacheStatement defaults]
    canApplyRule_gate [of blockExample BlockStatement defaults]
  by (simp add: example_defs)

section \<open>The visitor: properties\<close>

text \<open>
  C7. When the gate rejects a node, its callback returns without running a validator: the
  node and the log are as before, and nothing is thrown.
\<close>

theorem visitor_gate:
  assumes "\<not> canApplyRule node (ntype node) config"
  shows "\<exists>r. visitor config sfn src node log = (node, log, Inr r)"
proof -
  have no: "\<not> canApplyRule node t config" for t
    using assms canApplyRule_type by blast
  show ?thesis
    by (simp add: visitor_def visitor_BlockStatement_def visitor_MustacheStatement_def
        visitor_ElementNode_def no)
qed

theorem visitor_gate_witness:
  "\<not> canApplyRule (singleLine 20) (ntype (singleLine 20)) defaults \<and>
   visitor defaults (sourceForNodeIn singleLineSource) singleLineSource (singleLine 20) [] =
     (singleLine 20, [], Inr (Some 1))"
proof -
  have h: "\<not> canApplyRule (singleLine 20) (ntype (singleLine 20)) defaults"
    by (simp add: canApplyRule_def getEndLocationForOpen_def example_defs)
  obtain r where
    "visitor defaults (sourceForNodeIn singleLineSource) singleLineSource (singleLine 20) [] =
       (singleLine 20, [], Inr r)"
    using visitor_gate [OF h] by blast
  moreover have
    "snd (snd (visitor defaults (sourceForNodeIn singleLineSource) singleLineSource
                 (singleLine 20) [])) = Inr (Some 1)"
    using h by (simp add: visitor_def visitor_MustacheStatement_def example_defs)
  ultimately show ?thesis
    using h by simp
qed

lemma visitor_ElementNode_off:
  "processElements config = None \<Longrightarrow>
   visitor_ElementNode config sfn src node log = (node, log, Inr None)"
  by (simp add: visitor_ElementNode_def)

lemma parseConfig_processElements:
  assumes "parseConfig cem rn cfg = Inr (Options r)" and "processElements r \<noteq> None"
  shows "cfg = JBool True \<or> (\<exists>m. cfg = JObj m \<and> map_of m ''process-elements'' \<noteq> None)"
proof (cases cfg)
  case (JBool b)
  with assms show ?thesis by (cases b) (simp_all add: parseConfig_true parseConfig_false)
next
  case (JObj m)
  with assms show ?thesis by (auto simp add: parseConfig_object)
qed (use assms in \<open>simp_all add: parseConfig_undefined parseConfig_null_TypeError
       parseConfig_number parseConfig_string\<close>)

text \<open>
  C10. A mapping without the key \<^verbatim>\<open>process-elements\<close> is normalized to options without
  \<open>processElements\<close>, whatever its other keys, and with such options the callback for
  elements returns \<^verbatim>\<open>undefined\<close> at once: the node and the log are as before. Options
  with \<open>processElements\<close> come only from the boolean \<^verbatim>\<open>true\<close> and from a mapping with the
  key.
\<close>

theorem processElements_absent:
  "(map_of m ''process-elements'' = None \<longrightarrow>
      (\<exists>r. parseConfig cem rn (JObj m) = Inr (Options r) \<and>
           processElements r = None \<and>
           (\<forall>c. numericOptions r = Some c \<longrightarrow>
                visitor_ElementNode c sfn src node log = (node, log, Inr None)))) \<and>
   (\<forall>cfg r. parseConfig cem rn cfg = Inr (Options r) \<and> processElements r \<noteq> None \<longrightarrow>
      cfg = JBool True \<or> (\<exists>m'. cfg = JObj m' \<and> map_of m' ''process-elements'' \<noteq> None))"
proof (intro conjI impI allI)
  assume absent: "map_of m ''process-elements'' = None"
  let ?r = "\<lparr>maxLength = (case map_of m ''open-invocation-max-len'' of
                             None \<Rightarrow> JNum 80 | Some v \<Rightarrow> v),
              indentation = (case map_of m ''indentation'' of None \<Rightarrow> JNum 2 | Some v \<Rightarrow> v),
              processElements = (None :: jsval option)\<rparr>"
  have p: "parseConfig cem rn (JObj m) = Inr (Options ?r)"
    using absent by (simp add: parseConfig_object)
  have "visitor_ElementNode c sfn src node log = (node, log, Inr None)"
    if "numericOptions ?r = Some c" for c
  proof -
    from that have "processElements c = None"
      by (auto simp add: numericOptions_def split: jsval.splits)
    then show ?thesis by (rule visitor_ElementNode_off)
  qed
  with p show "\<exists>r. parseConfig cem rn (JObj m) = Inr (Options r) \<and>
           processElements r = None \<and>
           (\<forall>c. numericOptions r = Some c \<longrightarrow>
                visitor_ElementNode c sfn src node log = (node, log, Inr None))"
    by auto
next
  fix cfg r
  assume "parseConfig cem rn cfg = Inr (Options r) \<and> processElements r \<noteq> None"
  then show "cfg = JBool True \<or>
             (\<exists>m'. cfg = JObj m' \<and> map_of m' ''process-elements'' \<noteq> None)"
    using parseConfig_processElements by blast
qed

theorem processElements_absent_witness:
  "map_of [(''indentation'', JNum 4)] ''process-elements'' = None \<and>
   parseConfig usageText ''attribute-indentation'' (JObj [(''indentation'', JNum 4)]) =
     Inr (Options \<lparr>maxLength = JNum 80, indentation = JNum 4, processElements = None\<rparr>) \<and>
   numericOptions \<lparr>maxLength = JNum 80, indentation = JNum 4, processElements = None\<rparr> =
     Some \<lparr>maxLength = 80, indentation = 4, processElements = None\<rparr> \<and>
   visitor_ElementNode \<lparr>maxLength = 80, indentation = 4, processElements = None\<rparr>
     (sourceForNodeIn elementSource) elementSource elementExample [] =
     (elementExample, [], Inr None) \<and>
   parseConfig usageText ''attribute-indentation'' (JObj [(''process-elements'', JBool True)]) =
     Inr (Options \<lparr>maxLength = JNum 80, indentation = JNum 2,
                    processElements = Some (JBool True)\<rparr>) \<and>
   map_of [(''process-elements'', JBool True)] ''process-elements'' \<noteq> None"
proof -
  have h: "map_of [(''indentation'', JNum 4)] ''process-elements'' = None"
    by simp
  have n: "numericOptions \<lparr>maxLength = JNum 80, indentation = JNum 4, processElements = None\<rparr> =
             Some \<lparr>maxLength = 80, indentation = 4, processElements = None\<rparr>"
    by (simp add: numericOptions_def)
  have p: "parseConfig usageText ''attribute-indentation'' (JObj [(''indentation'', JNum 4)]) =
             Inr (Options \<lparr>maxLength = JNum 80, indentation = JNum 4, processElements = None\<rparr>)"
    by (simp add: parseConfig_object)
  have q: "parseConfig usageText ''attribute-indentation''
             (JObj [(''process-elements'', JBool True)]) =
           Inr (Options \<lparr>maxLength = JNum 80, indentation = JNum 2,
                          processElements = Some (JBool True)\<rparr>)"
    by (simp add: parseConfig_object)
  note t = processElements_absent [of "[(''indentation'', JNum 4)]" usageText
      "''attribute-indentation''" "sourceForNodeIn elementSource" elementSource
      elementExample "[]"]
  from t h p n have
    "visitor_ElementNode \<lparr>maxLength = 80, indentation = 4, processElements = None\<rparr>
       (sourceForNodeIn elementSource) elementSource elementExample [] =
     (elementExample, [], Inr None)"
    by auto
  moreover from t q have
    "map_of [(''process-elements'', JBool True)] ''process-elements'' \<noteq> None"
    by simp
  ultimately show ?thesis using h p n q by blast
qed

section \<open>The closing brace: properties\<close>

text \<open>
  C9. \<open>validateCloseBrace\<close> reads the node and writes nothing: it returns the node as it
  was, throws nothing, and logs at most one diagnostic, the same one when it is run again
  on the node it returned.
\<close>

theorem validateCloseBrace_idempotent:
  "\<exists>ds. validateCloseBrace sfn node expectedStartLine log = (node, log @ ds, Inr ()) \<and>
         validateCloseBrace sfn node expectedStartLine (log @ ds) =
           (node, (log @ ds) @ ds, Inr ()) \<and>
         length ds \<le> 1"
  by (simp add: validateCloseBrace_def Let_def)

theorem validateCloseBrace_idempotent_witness:
  "validateCloseBrace (sourceForNodeIn elementSource) elementExample 3 [] =
     (elementExample,
      [\<lparr>message = IncorrectCloseBracket ''div'' (at 3 6) (at 3 0), d_line = 3, d_column = 6,
        d_source = ''<div'' @ CHR 0x0A # ''    class=a'' @ CHR 0x0A # ''></div>''\<rparr>],
      Inr ()) \<and>
   validateCloseBrace (sourceForNodeIn elementSource) elementExample 3
     [\<lparr>message = IncorrectCloseBracket ''div'' (at 3 6) (at 3 0), d_line = 3, d_column = 6,
       d_source = ''<div'' @ CHR 0x0A # ''    class=a'' @ CHR 0x0A # ''></div>''\<rparr>] =
     (elementExample,
      [\<lparr>message = IncorrectCloseBracket ''div'' (at 3 6) (at 3 0), d_line = 3, d_column = 6,
        d_source = ''<div'' @ CHR 0x0A # ''    class=a'' @ CHR 0x0A # ''></div>''\<rparr>,
       \<lparr>message = IncorrectCloseBracket ''div'' (at 3 6) (at 3 0), d_line = 3, d_column = 6,
        d_source = ''<div'' @ CHR 0x0A # ''    class=a'' @ CHR 0x0A # ''></div>''\<rparr>],
      Inr ())"
proof -
  let ?d = "\<lparr>message = IncorrectCloseBracket ''div'' (at 3 6) (at 3 0), d_line = 3, d_column = 6,
             d_source = ''<div'' @ CHR 0x0A # ''    class=a'' @ CHR 0x0A # ''></div>''\<rparr>"
  obtain ds where
    1: "validateCloseBrace (sourceForNodeIn elementSource) elementExample 3 [] =
          (elementExample, [] @ ds, Inr ())" and
    2: "validateCloseBrace (sourceForNodeIn elementSource) elementExample 3 ([] @ ds) =
          (elementExample, ([] @ ds) @ ds, Inr ())"
    using validateCloseBrace_idempotent
      [of "sourceForNodeIn elementSource" elementExample 3 "[]"] by blast
  have "fst (snd (validateCloseBrace (sourceForNodeIn elementSource) elementExample 3 [])) = [?d]"
    by (simp add: validateCloseBrace_def getEndLocationForOpen_def Let_def example_defs
        source_defs)
  with 1 have "ds = [?d]" by simp
  with 1 2 show ?thesis by simp
qed


section \<open>Parameters and attributes: properties\<close>

subsection \<open>What the tree looks like afterwards\<close>

lemma fst_iterateParams:
  "fst (iterateParams sfn paramsRef type l c node log) =
     (if type = ''positional'' then corrected node else node)"
  by (cases "params node") (simp_all add: iterateParams_def corrected_def Let_def)

lemma fst_validateParams: "fst (validateParams config sfn node log) = corrected node"
proof (cases "ntype node = ElementNode")
  case True
  then show ?thesis
    using fst_iterateParams [of sfn node_attributes "''htmlAttribute''"]
    by (simp add: validateParams_def Let_def corrected_def)
next
  case False
  obtain n' log' r where
    i: "iterateParams sfn node_params ''positional'' (line (loc_start (loc node)) + 1)
          (column (loc_start (loc node)) + indentation config) node log = (n', log', r)"
    by (metis prod_cases3)
  then have n': "n' = corrected node"
    using fst_iterateParams [of sfn node_params "''positional''"
        "line (loc_start (loc node)) + 1" "column (loc_start (loc node)) + indentation config"
        node log]
    by simp
  show ?thesis
  proof (cases r)
    case (Inl e)
    with i n' False show ?thesis by (simp add: validateParams_def Let_def)
  next
    case (Inr l')
    with i n' False show ?thesis
      using fst_iterateParams [of sfn node_hash_pairs "''attribute''" l'
          "column (loc_start (loc node)) + indentation config" n' log']
      by (simp add: validateParams_def Let_def)
  qed
qed

text \<open>
  C8. \<open>iterateParams\<close> and \<open>validateParams\<close> return the tree as they found it, except on a
  block form whose path location is synthetic and that has a positional argument: there the
  first positional argument's start column is one less, and nothing else differs. This holds
  also when they throw. On a synthetic path the loop over the positional arguments starts
  one line earlier, for inline and block forms alike.
\<close>

theorem iterateParams_frame:
  "fst (iterateParams sfn paramsRef type l c node log) =
     (if type = ''positional'' \<and> ntype node = BlockStatement \<and> synthetic node \<and>
         params node \<noteq> []
      then node\<lparr>params := decrementColumn (hd (params node)) # tl (params node)\<rparr>
      else node) \<and>
   fst (validateParams config sfn node log) =
     (if ntype node = BlockStatement \<and> synthetic node \<and> params node \<noteq> []
      then node\<lparr>params := decrementColumn (hd (params node)) # tl (params node)\<rparr>
      else node) \<and>
   decrementColumn p =
     p\<lparr>p_loc := \<lparr>loc_start = \<lparr>line = line (loc_start (p_loc p)),
                                column = column (loc_start (p_loc p)) - 1\<rparr>,
                  loc_end = loc_end (p_loc p)\<rparr>\<rparr> \<and>
   (synthetic node \<and> \<not> (ntype node = BlockStatement \<and> params node = []) \<longrightarrow>
      snd (iterateParams sfn node_params ''positional'' l c node log) =
        forEach_param sfn ''positional param'' ''original'' c (corrected node)
          (params (corrected node)) (l - 1) log)"
proof -
  have 1: "fst (iterateParams sfn paramsRef type l c node log) =
     (if type = ''positional'' \<and> ntype node = BlockStatement \<and> synthetic node \<and>
         params node \<noteq> []
      then node\<lparr>params := decrementColumn (hd (params node)) # tl (params node)\<rparr>
      else node)"
    by (simp add: fst_iterateParams corrected_def)
  have 2: "fst (validateParams config sfn node log) =
     (if ntype node = BlockStatement \<and> synthetic node \<and> params node \<noteq> []
      then node\<lparr>params := decrementColumn (hd (params node)) # tl (params node)\<rparr>
      else node)"
    by (simp add: fst_validateParams corrected_def)
  have 3: "decrementColumn p =
     p\<lparr>p_loc := \<lparr>loc_start = \<lparr>line = line (loc_start (p_loc p)),
                                column = column (loc_start (p_loc p)) - 1\<rparr>,
                  loc_end = loc_end (p_loc p)\<rparr>\<rparr>"
    by (simp add: decrementColumn_def)
  have 4: "snd (iterateParams sfn node_params ''positional'' l c node log) =
        forEach_param sfn ''positional param'' ''original'' c (corrected node)
          (params (corrected node)) (l - 1) log"
    if "synthetic node" "\<not> (ntype node = BlockStatement \<and> params node = [])"
    using that
    by (cases "params node")
       (simp_all add: iterateParams_def corrected_def Let_def del: forEach_param.simps)
  from 1 2 3 4 show ?thesis by blast
qed

theorem iterateParams_frame_witness:
  "synthetic syntheticArgExample \<and>
   \<not> (ntype syntheticArgExample = BlockStatement \<and> params syntheticArgExample = []) \<and>
   fst (validateParams defaults (sourceForNodeIn syntheticArgSource) syntheticArgExample []) =
     syntheticArgExample\<lparr>params := [pathParam ''baz'' (between (at 2 2) (at 2 5))]\<rparr> \<and>
   iterateParams (sourceForNodeIn syntheticArgSource) node_params ''positional'' 2 2
       syntheticArgExample [] =
     (syntheticArgExample\<lparr>params := [pathParam ''baz'' (between (at 2 2) (at 2 5))]\<rparr>,
      [\<lparr>message = IncorrectParam ''positional param'' (JStr ''baz'') (at 2 2) (at 1 2),
        d_line = 2, d_column = 2,
        d_source = ''{{#foo-bar'' @ CHR 0x0A # ''  baz'' @ CHR 0x0A # ''}}'' @ CHR 0x0A #
                   ''  hi'' @ CHR 0x0A # ''{{/foo-bar}}''\<rparr>],
      Inr 2) \<and>
   fst (validateParams defaults (sourceForNodeIn syntheticSource) syntheticExample []) =
     syntheticExample \<and>
   fst (validateParams defaults (sourceForNodeIn inlineSource) inlineExample []) =
     inlineExample"
proof -
  note f1 = iterateParams_frame [of "sourceForNodeIn syntheticArgSource" node_params
      "''positional''" 2 2 syntheticArgExample "[]" defaults
      "pathParam ''baz'' (between (at 2 3) (at 2 5))"]
  note f2 = iterateParams_frame [of "sourceForNodeIn syntheticSource" node_params
      "''positional''" 2 2 syntheticExample "[]" defaults
      "pathParam ''baz'' (between (at 2 2) (at 2 5))"]
  note f3 = iterateParams_frame [of "sourceForNodeIn inlineSource" node_params
      "''positional''" 2 2 inlineExample "[]" defaults
      "pathParam ''baz'' (between (at 2 2) (at 2 5))"]
  have s: "synthetic syntheticArgExample"
    and n: "\<not> (ntype syntheticArgExample = BlockStatement \<and> params syntheticArgExample = [])"
    by (simp_all add: synthetic_def example_defs)
  have a: "fst (iterateParams (sourceForNodeIn syntheticArgSource) node_params ''positional'' 2 2
                  syntheticArgExample []) =
             syntheticArgExample\<lparr>params := [pathParam ''baz'' (between (at 2 2) (at 2 5))]\<rparr>"
    using f1 by (simp add: example_defs synthetic_def decrementColumn_def)
  have b: "snd (iterateParams (sourceForNodeIn syntheticArgSource) node_params ''positional'' 2 2
                  syntheticArgExample []) =
      ([\<lparr>message = IncorrectParam ''positional param'' (JStr ''baz'') (at 2 2) (at 1 2),
        d_line = 2, d_column = 2,
        d_source = ''{{#foo-bar'' @ CHR 0x0A # ''  baz'' @ CHR 0x0A # ''}}'' @ CHR 0x0A #
                   ''  hi'' @ CHR 0x0A # ''{{/foo-bar}}''\<rparr>],
       Inr 2)"
    using f1 s n
    by (simp add: corrected_def example_defs source_defs synthetic_def decrementColumn_def
        getParamName_def getProp_def advance_def valueType_def Let_def)
  have c: "fst (validateParams defaults (sourceForNodeIn syntheticArgSource)
                  syntheticArgExample []) =
             syntheticArgExample\<lparr>params := [pathParam ''baz'' (between (at 2 2) (at 2 5))]\<rparr>"
    using f1 by (simp add: example_defs synthetic_def decrementColumn_def)
  have d: "fst (validateParams defaults (sourceForNodeIn syntheticSource) syntheticExample []) =
             syntheticExample"
    using f2 by (simp add: example_defs)
  have e: "fst (validateParams defaults (sourceForNodeIn inlineSource) inlineExample []) =
             inlineExample"
    using f3 by (simp add: example_defs synthetic_def)
  from a b have "iterateParams (sourceForNodeIn syntheticArgSource) node_params ''positional''
      2 2 syntheticArgExample [] =
     (syntheticArgExample\<lparr>params := [pathParam ''baz'' (between (at 2 2) (at 2 5))]\<rparr>,
      [\<lparr>message = IncorrectParam ''positional param'' (JStr ''baz'') (at 2 2) (at 1 2),
        d_line = 2, d_column = 2,
        d_source = ''{{#foo-bar'' @ CHR 0x0A # ''  baz'' @ CHR 0x0A # ''}}'' @ CHR 0x0A #
                   ''  hi'' @ CHR 0x0A # ''{{/foo-bar}}''\<rparr>],
      Inr 2)"
    by (metis prod.collapse)
  with s n c d e show ?thesis by blast
qed


subsection \<open>Empty sequences\<close>

text \<open>
  C5. A path location is marked synthetic only where the old path has been moved to the
  first positional argument, which is why \<open>iterateParams\<close> reads \<^verbatim>\<open>node.params[0]\<close>
  unguarded: a node with a synthetic path location has a positional argument. For every
  such node whose sequences are all empty (the attributes of an element, the positional
  and the named arguments of an invocation), \<open>validateParams\<close> logs nothing, leaves the
  node as it is and returns the unmodified baseline, the line below the node's start. The
  loop over an empty sequence returns at once, before any comparison.
\<close>

theorem validateParams_empty:
  assumes "if ntype node = ElementNode then attributes node = []
           else params node = [] \<and> hash_pairs node = []"
    and "synthetic node \<longrightarrow> params node \<noteq> []"
  shows "validateParams config sfn node log =
           (node, log, Inr (line (loc_start (loc node)) + 1)) \<and>
         forEach_param sfn paramType namePath c node [] l log = (log, Inr l)"
proof (cases "ntype node = ElementNode")
  case True
  with assms show ?thesis
    by (simp add: validateParams_def iterateParams_def Let_def)
next
  case False
  with assms have "\<not> synthetic node" by auto
  with assms False show ?thesis
    by (simp add: validateParams_def iterateParams_def Let_def)
qed

theorem validateParams_empty_witness:
  "(if ntype (singleLine 11\<lparr>params := []\<rparr>) = ElementNode
    then attributes (singleLine 11\<lparr>params := []\<rparr>) = []
    else params (singleLine 11\<lparr>params := []\<rparr>) = [] \<and>
         hash_pairs (singleLine 11\<lparr>params := []\<rparr>) = []) \<and>
   \<not> synthetic (singleLine 11\<lparr>params := []\<rparr>) \<and>
   validateParams defaults (sourceForNodeIn singleLineSource) (singleLine 11\<lparr>params := []\<rparr>) [] =
     (singleLine 11\<lparr>params := []\<rparr>, [], Inr 2) \<and>
   (if ntype (elementExample\<lparr>attributes := []\<rparr>) = ElementNode
    then attributes (elementExample\<lparr>attributes := []\<rparr>) = []
    else params (elementExample\<lparr>attributes := []\<rparr>) = [] \<and>
         hash_pairs (elementExample\<lparr>attributes := []\<rparr>) = []) \<and>
   \<not> synthetic (elementExample\<lparr>attributes := []\<rparr>) \<and>
   validateParams defaults (sourceForNodeIn elementSource) (elementExample\<lparr>attributes := []\<rparr>) [] =
     (elementExample\<lparr>attributes := []\<rparr>, [], Inr 2)"
proof -
  let ?n = "singleLine 11\<lparr>params := []\<rparr>"
  let ?e = "elementExample\<lparr>attributes := []\<rparr>"
  have h1: "if ntype ?n = ElementNode then attributes ?n = []
            else params ?n = [] \<and> hash_pairs ?n = []"
    by (simp add: example_defs)
  have s: "\<not> synthetic ?n"
    by (simp add: example_defs synthetic_def)
  then have h2: "synthetic ?n \<longrightarrow> params ?n \<noteq> []"
    by simp
  have l: "line (loc_start (loc ?n)) = 1"
    by (simp add: example_defs)
  have g1: "if ntype ?e = ElementNode then attributes ?e = []
            else params ?e = [] \<and> hash_pairs ?e = []"
    by (simp add: example_defs)
  have t: "\<not> synthetic ?e"
    by (simp add: example_defs synthetic_def)
  then have g2: "synthetic ?e \<longrightarrow> params ?e \<noteq> []"
    by simp
  have m: "line (loc_start (loc ?e)) = 1"
    by (simp add: example_defs)
  show ?thesis
    using h1 s l g1 t m
      validateParams_empty [OF h1 h2, of defaults "sourceForNodeIn singleLineSource" "[]"]
      validateParams_empty [OF g1 g2, of defaults "sourceForNodeIn elementSource" "[]"]
    by simp
qed

subsection \<open>The alignment of the entries\<close>

lemma getParamName_ok:
  "entryOk (pt, np, e) \<Longrightarrow> getParamName np e = Inr (citedName np e)"
  by (auto simp add: entryOk_def getParamName_def citedName_def)

lemma advance_ok:
  "entryOk (pt, np, e) \<Longrightarrow> advance e l = Inr (lineAfter l e - 1)"
  by (cases "p_value e")
     (auto simp add: entryOk_def advance_def lineAfter_def pullsTo_def valueType_def Let_def)

lemma length_expectedLines: "length (expectedLines l es) = length es"
  by (induction es arbitrary: l) simp_all

lemma expectedLines_append:
  "expectedLines l (xs @ ys) = expectedLines l xs @ expectedLines (nextLine l xs) ys"
  by (induction xs arbitrary: l) (simp_all add: nextLine_def)

lemma reportsFor_Nil: "reportsFor sfn node pt np c l [] = []"
  by (simp add: reportsFor_def)

lemma reportsFor_Cons:
  "reportsFor sfn node pt np c l (e # es) =
     (if line (loc_start (p_loc e)) \<noteq> l \<or> column (loc_start (p_loc e)) \<noteq> c
      then [report sfn node ((pt, np, e), \<lparr>line = l, column = c\<rparr>)] else []) @
     reportsFor sfn node pt np c (lineAfter l e) es"
  by (simp add: reportsFor_def misplaced_def)

lemma forEach_param_reports:
  assumes "\<forall>e \<in> set es. entryOk (pt, np, e)"
  shows "forEach_param sfn pt np c node es l log =
           (log @ reportsFor sfn node pt np c l es, Inr (nextLine l es))"
  using assms
proof (induction es arbitrary: l log)
  case Nil
  show ?case by (simp add: reportsFor_Nil nextLine_def)
next
  case (Cons e es)
  have ok: "entryOk (pt, np, e)" and rest: "\<forall>e \<in> set es. entryOk (pt, np, e)"
    using Cons.prems by simp_all
  note ih = Cons.IH [OF rest]
  show ?case
    by (simp add: getParamName_ok [OF ok] advance_ok [OF ok] ih reportsFor_Cons report_def
        nextLine_def Let_def) auto
qed


lemma nextLine_append: "nextLine l (xs @ ys) = nextLine (nextLine l xs) ys"
  by (simp add: nextLine_def)

lemma reports_element:
  "ntype node = ElementNode \<Longrightarrow>
   reports config sfn node =
     reportsFor sfn node ''htmlAttribute'' ''name'' (column (loc_start (loc node)) + indentation config)
       (baseline node) (attributes node)"
  by (simp add: reports_def entries_def expectedCoordinates_def reportsFor_def comp_def)

lemma reports_invocation:
  "ntype node \<noteq> ElementNode \<Longrightarrow>
   reports config sfn node =
     reportsFor sfn node ''positional param'' ''original''
       (column (loc_start (loc node)) + indentation config) (baseline node) (params node) @
     reportsFor sfn node ''attribute'' ''key''
       (column (loc_start (loc node)) + indentation config)
       (nextLine (baseline node) (params node)) (hash_pairs node)"
  by (simp add: reports_def entries_def expectedCoordinates_def reportsFor_def comp_def
      expectedLines_append length_expectedLines)

lemma entryOk_decrementColumn:
  "entryOk (pt, np, decrementColumn p) = entryOk (pt, np, p)"
  by (simp add: entryOk_def decrementColumn_def getProp_def)

lemma validateParams_element:
  assumes el: "ntype node = ElementNode"
    and ok: "\<forall>x \<in> set (entries node). entryOk x"
  shows "validateParams config sfn node log =
           (node, log @ reports config sfn node,
            Inr (nextLine (baseline node) (attributes node)))"
proof -
  have ok': "\<forall>e \<in> set (attributes node). entryOk (''htmlAttribute'', ''name'', e)"
    using ok el by (simp add: entries_def)
  show ?thesis
    by (simp add: validateParams_def iterateParams_def el Let_def
        forEach_param_reports [OF ok'] reports_element [OF el] baseline_def)
qed

lemma validateParams_plain:
  assumes inv: "ntype node \<noteq> ElementNode" and plain: "\<not> synthetic node"
    and ok: "\<forall>x \<in> set (entries node). entryOk x"
  shows "validateParams config sfn node log =
           (node, log @ reports config sfn node,
            Inr (nextLine (baseline node) (params node @ hash_pairs node)))"
proof -
  have okp: "\<forall>e \<in> set (params node). entryOk (''positional param'', ''original'', e)"
    and okh: "\<forall>e \<in> set (hash_pairs node). entryOk (''attribute'', ''key'', e)"
    using ok inv by (auto simp add: entries_def)
  show ?thesis
    by (simp add: validateParams_def iterateParams_def inv plain Let_def
        forEach_param_reports [OF okp] forEach_param_reports [OF okh]
        reports_invocation [OF inv] baseline_def nextLine_append)
qed

lemma validateParams_synthetic_inline:
  assumes inv: "ntype node \<noteq> ElementNode" and nb: "ntype node \<noteq> BlockStatement"
    and syn: "synthetic node"
    and ok: "\<forall>x \<in> set (entries node). entryOk x"
  shows "validateParams config sfn node log =
           (node, log @ reports config sfn node,
            Inr (nextLine (baseline node) (params node @ hash_pairs node)))"
proof -
  have okp: "\<forall>e \<in> set (params node). entryOk (''positional param'', ''original'', e)"
    and okh: "\<forall>e \<in> set (hash_pairs node). entryOk (''attribute'', ''key'', e)"
    using ok inv by (auto simp add: entries_def)
  show ?thesis
    by (simp add: validateParams_def iterateParams_def inv nb syn Let_def
        forEach_param_reports [OF okp] forEach_param_reports [OF okh]
        reports_invocation [OF inv] baseline_def nextLine_append)
qed

lemma validateParams_synthetic_block:
  assumes bl: "ntype node = BlockStatement" and syn: "synthetic node"
    and ps: "params node = p # ps"
    and ok: "\<forall>x \<in> set (entries node). entryOk x"
  shows "validateParams config sfn node log =
           (corrected node, log @ reports config sfn (corrected node),
            Inr (nextLine (baseline node)
                   (params (corrected node) @ hash_pairs (corrected node))))"
proof -
  let ?n = "node\<lparr>params := decrementColumn p # ps\<rparr>"
  have c: "corrected node = ?n"
    by (simp add: corrected_def bl syn ps)
  have inv: "ntype ?n \<noteq> ElementNode"
    by (simp add: bl)
  have okp: "\<forall>e \<in> set (decrementColumn p # ps). entryOk (''positional param'', ''original'', e)"
    and okh: "\<forall>e \<in> set (hash_pairs node). entryOk (''attribute'', ''key'', e)"
    using ok bl ps by (auto simp add: entries_def entryOk_decrementColumn)
  have syn': "synthetic ?n"
    using syn by (simp add: synthetic_def)
  have nl: "nextLine l (decrementColumn p # ps @ hs) =
              nextLine (nextLine l (decrementColumn p # ps)) hs" for l hs
    using nextLine_append [of l "decrementColumn p # ps" hs] by simp
  show ?thesis
    unfolding c
    by (simp add: validateParams_def iterateParams_def bl syn syn' ps Let_def
        forEach_param_reports [OF okp] forEach_param_reports [OF okh]
        reports_invocation [OF inv] nl baseline_def
        del: forEach_param.simps)
qed

lemma entries_params:
  "map (\<lambda>x. snd (snd x)) (entries node) =
     (if ntype node = ElementNode then attributes node else params node @ hash_pairs node)"
  by (simp add: entries_def comp_def)

text \<open>
  C2, as stated: the first entry is expected on the line below the node's start. It is not
  when the invocation's path location is synthetic: the argument of the example stands on
  that line, at the expected column, and is reported, since it is expected one line earlier.
\<close>

theorem validateParams_alignment_counterexample:
  "loc_start (p_loc (hd (params syntheticExample))) =
     \<lparr>line = line (loc_start (loc syntheticExample)) + 1,
      column = column (loc_start (loc syntheticExample)) + indentation defaults\<rparr> \<and>
   validateParams defaults (sourceForNodeIn syntheticSource) syntheticExample [] =
     (syntheticExample,
      [\<lparr>message = IncorrectParam ''positional param'' (JStr ''baz'') (at 2 2) (at 1 2),
        d_line = 2, d_column = 2,
        d_source = ''{{foo-bar'' @ CHR 0x0A # ''  baz'' @ CHR 0x0A # ''}}''\<rparr>],
      Inr 2)"
  by (simp add: validateParams_def iterateParams_def synthetic_def example_defs source_defs
      getParamName_def getProp_def advance_def valueType_def Let_def)

text \<open>
  C2, amended. Let the sequence of a node be its attributes (an element) or its positional
  arguments followed by its named arguments (an invocation), read after the correction of
  the first positional argument on a block form with a synthetic path location. If every
  entry has a name to cite and the correction has an argument to apply to, then
  \<open>validateParams\<close> does not throw and:
  the expected column of every entry is the node's start column plus the indentation;
  the expected line of the first entry is the line below the node's start, or the node's
  start line when the invocation's path location is synthetic;
  the expected line of each later entry is one more than the line of the previous entry,
  which is that entry's expected line, or the entry's own end line when its value is a
  sub-expression and the entry spans several lines, or its value's end line when the value
  is an inline invocation;
  the diagnostics logged are those of the entries whose start differs from the expected
  coordinate in line or in column, in order;
  the result is the line expected after the last entry.
\<close>

theorem validateParams_alignment:
  assumes ok: "\<forall>x \<in> set (entries node). entryOk x"
    and first: "\<not> (ntype node = BlockStatement \<and> synthetic node \<and> params node = [])"
  shows "validateParams config sfn node log =
           (corrected node, log @ reports config sfn (corrected node),
            Inr (nextLine (baseline node) (map (\<lambda>x. snd (snd x)) (entries (corrected node)))))"
proof (cases "ntype node = ElementNode")
  case True
  then have "corrected node = node" by (simp add: corrected_def)
  then show ?thesis
    using validateParams_element [OF True ok] True by (simp add: entries_params)
next
  case inv: False
  show ?thesis
  proof (cases "synthetic node")
    case False
    then have "corrected node = node" by (simp add: corrected_def)
    then show ?thesis
      using validateParams_plain [OF inv False ok] inv by (simp add: entries_params)
  next
    case syn: True
    show ?thesis
    proof (cases "ntype node = BlockStatement")
      case False
      then have "corrected node = node" by (simp add: corrected_def)
      then show ?thesis
        using validateParams_synthetic_inline [OF inv False syn ok] inv
        by (simp add: entries_params)
    next
      case bl: True
      with first syn obtain p ps where ps: "params node = p # ps"
        by (cases "params node") auto
      have t: "ntype (corrected node) = BlockStatement"
        by (simp add: corrected_def bl)
      show ?thesis
        using validateParams_synthetic_block [OF bl syn ps ok] t
        by (simp add: entries_params)
    qed
  qed
qed


theorem validateParams_alignment_witness:
  "list_all entryOk (entries inlineExample) \<and>
   \<not> (ntype inlineExample = BlockStatement \<and> synthetic inlineExample \<and>
      params inlineExample = []) \<and>
   expectedCoordinates defaults inlineExample = [at 2 2, at 3 2, at 5 2] \<and>
   validateParams defaults (sourceForNodeIn inlineSource) inlineExample [] =
     (inlineExample,
      [\<lparr>message = IncorrectParam ''attribute'' (JStr ''d'') (at 5 4) (at 5 2),
        d_line = 5, d_column = 4,
        d_source = ''{{foo-bar'' @ CHR 0x0A # ''  baz'' @ CHR 0x0A # ''  a=(b'' @ CHR 0x0A #
                   ''    c)'' @ CHR 0x0A # ''    d=e'' @ CHR 0x0A # ''}}''\<rparr>],
      Inr 6)"
proof -
  have h1: "\<forall>x \<in> set (entries inlineExample). entryOk x"
    by (simp add: entries_def entryOk_def getProp_def example_defs)
  have h2: "\<not> (ntype inlineExample = BlockStatement \<and> synthetic inlineExample \<and>
      params inlineExample = [])"
    by (simp add: example_defs)
  have c: "corrected inlineExample = inlineExample"
    by (simp add: corrected_def example_defs)
  have e: "expectedCoordinates defaults inlineExample = [at 2 2, at 3 2, at 5 2]"
    by (simp add: expectedCoordinates_def entries_def baseline_def synthetic_def lineAfter_def
        pullsTo_def valueType_def example_defs)
  have r: "reports defaults (sourceForNodeIn inlineSource) inlineExample =
      [\<lparr>message = IncorrectParam ''attribute'' (JStr ''d'') (at 5 4) (at 5 2),
        d_line = 5, d_column = 4,
        d_source = ''{{foo-bar'' @ CHR 0x0A # ''  baz'' @ CHR 0x0A # ''  a=(b'' @ CHR 0x0A #
                   ''    c)'' @ CHR 0x0A # ''    d=e'' @ CHR 0x0A # ''}}''\<rparr>]"
    unfolding reports_def e
    by (simp add: entries_def misplaced_def report_def citedName_def getProp_def
        example_defs source_defs)
  have n: "nextLine (baseline inlineExample) (map (\<lambda>x. snd (snd x)) (entries inlineExample)) = 6"
    by (simp add: nextLine_def entries_def baseline_def synthetic_def lineAfter_def
        pullsTo_def valueType_def example_defs)
  show ?thesis
    using validateParams_alignment [OF h1 h2, of defaults "sourceForNodeIn inlineSource" "[]"]
      h1 h2 e
    by (simp add: c r n list_all_iff)
qed

section \<open>Block parameters: properties\<close>

text \<open>
  C1, as stated: the anchor is the end of the last positional argument whenever there is
  one. It is not on a block with a positional argument ending on line 2 and a named argument
  ending on line 3: the block parameters are expected on line 4, below the named argument,
  and not on line 3.
\<close>

theorem getBlockParamStartLoc_counterexample:
  "params blockExample \<noteq> [] \<and>
   \<lparr>line = line (loc_end (p_loc (last (params blockExample)))) + 1,
    column = column (loc_start (loc blockExample))\<rparr> = at 3 0 \<and>
   getBlockParamStartLoc (sourceForNodeIn blockSource) blockSource blockExample =
     Inr \<lparr>actual = Some (at 4 0), expected = at 4 0\<rparr>"
  by (simp add: getBlockParamStartLoc_def Let_def example_defs source_defs)

text \<open>
  C1, amended. For a block invocation that has arguments, the anchor is the end of the
  named-argument group whenever named arguments exist, and only otherwise the end of the
  last positional argument; the block parameters are expected one line below the anchor, at
  the invocation's start column. The function returns this whenever the line of the body
  start is a line of the source.
\<close>

theorem getBlockParamStartLoc_expected:
  assumes "params node \<noteq> [] \<or> hash_pairs node \<noteq> []"
    and "sourceLine src (line (loc_start (program_loc node)) - 1) \<noteq> None"
  shows "\<exists>a. getBlockParamStartLoc sfn src node =
           Inr \<lparr>actual = a,
                expected =
                  \<lparr>line = line (if hash_pairs node \<noteq> [] then loc_end (hash_loc node)
                                 else loc_end (p_loc (last (params node)))) + 1,
                   column = column (loc_start (loc node))\<rparr>\<rparr>"
  using assms by (auto simp add: getBlockParamStartLoc_def Let_def)

theorem getBlockParamStartLoc_expected_witness:
  "params blockExample \<noteq> [] \<and>
   sourceLine blockSource (line (loc_start (program_loc blockExample)) - 1) \<noteq> None \<and>
   hash_pairs blockExample \<noteq> [] \<and> loc_end (hash_loc blockExample) = at 3 5 \<and>
   map_sum id expected
     (getBlockParamStartLoc (sourceForNodeIn blockSource) blockSource blockExample) =
     Inr (at 4 0)"
proof -
  have h1: "params blockExample \<noteq> [] \<or> hash_pairs blockExample \<noteq> []"
    by (simp add: example_defs)
  have h2: "sourceLine blockSource (line (loc_start (program_loc blockExample)) - 1) \<noteq> None"
    by (simp add: example_defs sourceLine_def)
  have h3: "hash_pairs blockExample \<noteq> []" and h4: "loc_end (hash_loc blockExample) = at 3 5"
    and h5: "column (loc_start (loc blockExample)) = 0"
    by (simp_all add: example_defs)
  from getBlockParamStartLoc_expected [OF h1 h2, of "sourceForNodeIn blockSource"]
  obtain a where
    "getBlockParamStartLoc (sourceForNodeIn blockSource) blockSource blockExample =
       Inr \<lparr>actual = a,
            expected =
              \<lparr>line = line (if hash_pairs blockExample \<noteq> [] then loc_end (hash_loc blockExample)
                             else loc_end (p_loc (last (params blockExample)))) + 1,
               column = column (loc_start (loc blockExample))\<rparr>\<rparr>"
    by blast
  then have "map_sum id expected
     (getBlockParamStartLoc (sourceForNodeIn blockSource) blockSource blockExample) =
     Inr (at 4 0)"
    using h3 h4 h5 by (simp add: at_def)
  moreover have "params blockExample \<noteq> []"
    by (simp add: example_defs)
  ultimately show ?thesis using h2 h3 h4 by blast
qed


section \<open>Exceptions\<close>

text \<open>
  C3. Apart from the configuration error, no operation of the rule should throw. Two inputs
  on which a callback of the visitor throws a TypeError:
  an inline invocation over several lines whose misplaced positional argument is the number
  \<^verbatim>\<open>0\<close> (its \<^verbatim>\<open>original\<close> is falsy, and the literal has no \<^verbatim>\<open>path\<close> to read a name from);
  a block form over several lines whose path location is synthetic and that has named
  arguments but no positional one (\<^verbatim>\<open>node.params[0]\<close> is \<^verbatim>\<open>undefined\<close>).
\<close>

theorem visitor_throws:
  "visitor defaults (sourceForNodeIn zeroSource) zeroSource zeroExample [] =
     (zeroExample, [], Inl TypeError) \<and>
   visitor defaults (sourceForNodeIn syntheticBlockSource) syntheticBlockSource
       syntheticBlockExample [] =
     (syntheticBlockExample, [], Inl TypeError)"
  by (simp add: visitor_def visitor_MustacheStatement_def visitor_BlockStatement_def
      validateNonBlockForm_def validateBlockForm_def validateParams_def iterateParams_def
      canApplyRule_def getEndLocationForOpen_def synthetic_def getParamName_def getProp_def
      Let_def example_defs)


end
